theory Spec2Isabelle
  imports Main
begin

section \<open>Python values and exceptions\<close>

text \<open>
  The controller of \<^verbatim>\<open>nova/api/ec2/cloud.py\<close> receives its request parameters as
  keyword arguments whose values are \<^verbatim>\<open>None\<close>, integers, booleans or strings.
  The exceptions the modelled functions raise are the constructors of \<open>error\<close>;
  the two \<^verbatim>\<open>InvalidInputException\<close>s and the three \<^verbatim>\<open>ApiError\<close>s are told apart by
  their message.
\<close>

datatype pyval = PNone | PBool bool | PInt int | PStr string

datatype error =
    ValueError
  | TypeError
  | KeyError
  | IndexError
  | AssertionError
  | AttributeError
  | NotFound
  | Duplicate
  | InvalidInput_not_a_valid_ipProtocol
  | InvalidInput_Invalid_port_range
  | ApiError_Not_enough_parameters
  | ApiError_This_rule_already_exists
  | ApiError_No_rule_for_the_specified_parameters

text \<open>Truth value testing, as \<^verbatim>\<open>if x:\<close> does it.\<close>

fun truthy :: "pyval \<Rightarrow> bool" where
  "truthy PNone = False"
| "truthy (PBool b) = b"
| "truthy (PInt n) = (n \<noteq> 0)"
| "truthy (PStr s) = (s \<noteq> [])"

subsection \<open>The builtin \<^verbatim>\<open>int(x, base)\<close>\<close>

definition digits36 :: string where
  "digits36 = ''0123456789abcdefghijklmnopqrstuvwxyz''"

definition upper36 :: string where
  "upper36 = ''0123456789ABCDEFGHIJKLMNOPQRSTUVWXYZ''"

fun index_of :: "'a \<Rightarrow> 'a list \<Rightarrow> nat option" where
  "index_of x [] = None"
| "index_of x (y # ys) =
     (if x = y then Some 0 else map_option Suc (index_of x ys))"

text \<open>The value of a digit character; letters count in either case.\<close>

definition digit_value :: "char \<Rightarrow> nat option" where
  "digit_value c =
     (case index_of c digits36 of
        Some v \<Rightarrow> Some v
      | None \<Rightarrow> index_of c upper36)"

definition isspace :: "char \<Rightarrow> bool" where
  "isspace c = (c \<in> set [CHR '' '', CHR 0x09, CHR 0x0A, CHR 0x0B, CHR 0x0C, CHR 0x0D])"

definition strip :: "string \<Rightarrow> string" where
  "strip s = rev (dropWhile isspace (rev (dropWhile isspace s)))"

fun digits_value :: "nat \<Rightarrow> string \<Rightarrow> nat \<Rightarrow> nat option" where
  "digits_value base [] acc = Some acc"
| "digits_value base (c # cs) acc =
     (case digit_value c of
        None \<Rightarrow> None
      | Some v \<Rightarrow> if v < base then digits_value base cs (acc * base + v) else None)"

text \<open>
  \<^verbatim>\<open>int(s, base)\<close> on a string, for a base that has no literal prefix (10 and 36
  here): surrounding whitespace is dropped, one sign may precede the digits,
  and at least one digit is required. Anything else is a \<^verbatim>\<open>ValueError\<close>.
\<close>

definition int_of_string :: "nat \<Rightarrow> string \<Rightarrow> error + int" where
  "int_of_string base s =
     (let t = strip s;
          (sgn, ds) = (case t of
                         c # r \<Rightarrow> if c = CHR ''-'' then (-1, r)
                                  else if c = CHR ''+'' then (1, r) else (1, t)
                       | [] \<Rightarrow> (1::int, t))
      in if ds = [] then Inl ValueError
         else case digits_value base ds 0 of
                None \<Rightarrow> Inl ValueError
              | Some v \<Rightarrow> Inr (sgn * int v))"

section \<open>Identifier codec\<close>

text \<open>
  \<^verbatim>\<open>
  def ec2_id_to_id(ec2_id):
      return int(ec2_id[2:], 36)
  \<close>
\<close>

definition ec2_id_to_id :: "string \<Rightarrow> error + int" where
  "ec2_id_to_id ec2_id = int_of_string 36 (drop 2 ec2_id)"

text \<open>
  \<^verbatim>\<open>
  def id_to_ec2_id(instance_id):
      digits = []
      while instance_id != 0:
          instance_id, remainder = divmod(instance_id, 36)
          digits.append('0123456789abcdefghijklmnopqrstuvwxyz'[remainder])
      return "i-%s" % ''.join(reversed(digits))
  \<close>
  \<^verbatim>\<open>divmod\<close> rounds towards minus infinity, as \<open>div\<close> and \<open>mod\<close> on \<open>int\<close> do, so
  the remainder is always an index into the digit string. The loop need not
  end (it does not for a negative id): \<open>None\<close> stands for a call that never
  returns.
\<close>

partial_function (option) id_loop :: "int \<Rightarrow> string \<Rightarrow> string option" where
  "id_loop instance_id digits =
     (if instance_id \<noteq> 0
      then id_loop (instance_id div 36) (digits @ [digits36 ! nat (instance_id mod 36)])
      else Some digits)"

declare id_loop.simps [code]

definition id_to_ec2_id :: "int \<Rightarrow> string option" where
  "id_to_ec2_id instance_id =
     (case id_loop instance_id [] of
        None \<Rightarrow> None
      | Some digits \<Rightarrow> Some (''i-'' @ rev digits))"

subsection \<open>Other builtins on request values\<close>

text \<open>\<^verbatim>\<open>int(x)\<close>: an integer is itself, a boolean is 0 or 1, a string is read in base 10.\<close>

fun py_int :: "pyval \<Rightarrow> error + int" where
  "py_int PNone = Inl TypeError"
| "py_int (PBool b) = Inr (if b then 1 else 0)"
| "py_int (PInt n) = Inr n"
| "py_int (PStr s) = int_of_string 10 s"

fun str_of_nat :: "nat \<Rightarrow> string" where
  "str_of_nat n =
     (if n < 10 then [digits36 ! n] else str_of_nat (n div 10) @ [digits36 ! (n mod 10)])"

definition str_of_int :: "int \<Rightarrow> string" where
  "str_of_int n = (if n < 0 then CHR ''-'' # str_of_nat (nat (- n)) else str_of_nat (nat n))"

text \<open>\<^verbatim>\<open>str(x)\<close>, which is also what the \<^verbatim>\<open>%s\<close> conversion inserts.\<close>

fun py_str :: "pyval \<Rightarrow> string" where
  "py_str PNone = ''None''"
| "py_str (PBool b) = (if b then ''True'' else ''False'')"
| "py_str (PInt n) = str_of_int n"
| "py_str (PStr s) = s"

definition lower26 :: string where
  "lower26 = ''abcdefghijklmnopqrstuvwxyz''"

definition upper26 :: string where
  "upper26 = ''ABCDEFGHIJKLMNOPQRSTUVWXYZ''"

definition upper_char :: "char \<Rightarrow> char" where
  "upper_char c = (case index_of c lower26 of Some i \<Rightarrow> upper26 ! i | None \<Rightarrow> c)"

definition upper :: "string \<Rightarrow> string" where
  "upper s = map upper_char s"

text \<open>\<^verbatim>\<open>x == y\<close> on request values: a boolean equals the integer 0 or 1.\<close>

fun py_eq :: "pyval \<Rightarrow> pyval \<Rightarrow> bool" where
  "py_eq (PBool a) (PInt n) = ((if a then 1 else 0) = n)"
| "py_eq (PInt n) (PBool a) = (n = (if a then 1 else 0))"
| "py_eq x y = (x = y)"

text \<open>\<^verbatim>\<open>s.split(':')\<close>: the pieces between the separators, at least one.\<close>

fun split_on :: "char \<Rightarrow> string \<Rightarrow> string list" where
  "split_on sep [] = [[]]"
| "split_on sep (c # cs) =
     (if c = sep then [] # split_on sep cs
      else case split_on sep cs of
             p # ps \<Rightarrow> (c # p) # ps
           | [] \<Rightarrow> [[c]])"

text \<open>
  A dictionary with string keys, as an association list with one entry per
  key: \<^verbatim>\<open>d[k] = v\<close> replaces the entry of \<open>k\<close> or appends a new one.
\<close>

type_synonym 'v dict = "(string \<times> 'v) list"

fun dict_set :: "'v dict \<Rightarrow> string \<Rightarrow> 'v \<Rightarrow> 'v dict" where
  "dict_set [] k v = [(k, v)]"
| "dict_set ((k', v') # d) k v =
     (if k' = k then (k, v) # d else (k', v') # dict_set d k v)"

definition dict_item :: "'v dict \<Rightarrow> string \<Rightarrow> error + 'v" where
  "dict_item d k = (case map_of d k of None \<Rightarrow> Inl KeyError | Some v \<Rightarrow> Inr v)"

definition dict_has :: "'v dict \<Rightarrow> string \<Rightarrow> bool" where
  "dict_has d k = (map_of d k \<noteq> None)"

section \<open>Request context and the datastore\<close>

record request_context =
  ctx_user_id :: string
  ctx_user_is_admin :: bool
  ctx_is_admin :: bool
  ctx_project_id :: string

record security_group =
  sg_id :: int
  sg_project_id :: string
  sg_name :: string
  sg_description :: string

text \<open>
  A row of the rule table. The columns hold what the value set given to
  \<^verbatim>\<open>db.security_group_rule_create\<close> held, \<^verbatim>\<open>None\<close> for a key it did not have.
\<close>

record rule =
  rule_id :: int
  parent_group_id :: pyval
  protocol :: pyval
  from_port :: pyval
  to_port :: pyval
  cidr :: pyval
  group_id :: pyval

record key_pair =
  kp_user_id :: string
  kp_name :: string
  kp_public_key :: string
  kp_fingerprint :: string

text \<open>
  The state one request works on: the tables of the datastore, the refresh
  messages sent to the compute nodes so far (the group id of each), and how
  often \<^verbatim>\<open>crypto.generate_key_pair\<close> has been invoked.
\<close>

record cloud_state =
  groups :: "security_group list"
  rules :: "rule list"
  key_pairs :: "key_pair list"
  refreshed :: "int list"
  generated :: nat

subsection \<open>Datastore operations on security groups\<close>

text \<open>
  Modelled from the spec: the module \<^verbatim>\<open>nova.db\<close> (the persistence collaborator) is
  not part of the sources. It offers CRUD operations keyed by internal ids and by
  (project, name), and raises \<^verbatim>\<open>NotFound\<close> for an absent row. A group's \<^verbatim>\<open>rules\<close> are
  the rows of the rule table whose parent is the group, in table order.
\<close>

definition security_group_get_by_name ::
    "cloud_state \<Rightarrow> string \<Rightarrow> string \<Rightarrow> error + security_group" where
  "security_group_get_by_name st project_id group_name =
     (case find (\<lambda>g. sg_project_id g = project_id \<and> sg_name g = group_name) (groups st) of
        None \<Rightarrow> Inl NotFound
      | Some g \<Rightarrow> Inr g)"

definition security_group_rules :: "cloud_state \<Rightarrow> security_group \<Rightarrow> rule list" where
  "security_group_rules st g = filter (\<lambda>r. parent_group_id r = PInt (sg_id g)) (rules st)"

definition column :: "pyval dict \<Rightarrow> string \<Rightarrow> pyval" where
  "column vals k = (case map_of vals k of None \<Rightarrow> PNone | Some v \<Rightarrow> v)"

definition next_rule_id :: "rule list \<Rightarrow> int" where
  "next_rule_id rs = 1 + fold max (map rule_id rs) 0"

text \<open>
  Modelled from the spec: \<^verbatim>\<open>db.security_group_rule_create\<close> (absent) adds one row with
  a fresh id; \<^verbatim>\<open>db.security_group_rule_destroy\<close> (absent) removes the row of an id.
\<close>

definition security_group_rule_create :: "cloud_state \<Rightarrow> pyval dict \<Rightarrow> cloud_state" where
  "security_group_rule_create st vals =
     st\<lparr>rules := rules st @
          [\<lparr>rule_id = next_rule_id (rules st),
            parent_group_id = column vals ''parent_group_id'',
            protocol = column vals ''protocol'',
            from_port = column vals ''from_port'',
            to_port = column vals ''to_port'',
            cidr = column vals ''cidr'',
            group_id = column vals ''group_id''\<rparr>]\<rparr>"

definition security_group_rule_destroy :: "cloud_state \<Rightarrow> int \<Rightarrow> cloud_state" where
  "security_group_rule_destroy st rid = st\<lparr>rules := filter (\<lambda>r. rule_id r \<noteq> rid) (rules st)\<rparr>"

text \<open>
  Modelled from the spec: \<^verbatim>\<open>compute_api.trigger_security_group_rules_refresh\<close>
  (absent) sends the compute nodes a message that carries the security-group
  id and expects no reply; the model records the group id.
\<close>

definition trigger_security_group_rules_refresh :: "cloud_state \<Rightarrow> int \<Rightarrow> cloud_state" where
  "trigger_security_group_rules_refresh st gid = st\<lparr>refreshed := refreshed st @ [gid]\<rparr>"

text \<open>The attributes of a rule row by name: \<^verbatim>\<open>rule[key]\<close> and \<^verbatim>\<open>getattr(rule, key)\<close>.\<close>

definition rule_getattr :: "rule \<Rightarrow> string \<Rightarrow> pyval option" where
  "rule_getattr r k =
     (if k = ''id'' then Some (PInt (rule_id r))
      else if k = ''parent_group_id'' then Some (parent_group_id r)
      else if k = ''protocol'' then Some (protocol r)
      else if k = ''from_port'' then Some (from_port r)
      else if k = ''to_port'' then Some (to_port r)
      else if k = ''cidr'' then Some (cidr r)
      else if k = ''group_id'' then Some (group_id r)
      else None)"

definition rule_item :: "rule \<Rightarrow> string \<Rightarrow> error + pyval" where
  "rule_item r k = (case rule_getattr r k of None \<Rightarrow> Inl AttributeError | Some v \<Rightarrow> Inr v)"

section \<open>Rule canonicalizer\<close>

text \<open>
  \<^verbatim>\<open>
  def _get_source_project_id(self, context, source_security_group_owner_id):
      if source_security_group_owner_id:
          source_parts = source_security_group_owner_id.split(':')
          if len(source_parts) == 2:
              source_project_id = source_parts[1]
          else:
              source_project_id = source_parts[0]
      else:
          source_project_id = context.project_id
      return source_project_id
  \<close>
\<close>

definition get_source_project_id :: "request_context \<Rightarrow> pyval \<Rightarrow> error + string" where
  "get_source_project_id context source_security_group_owner_id =
     (if truthy source_security_group_owner_id then
        (case source_security_group_owner_id of
           PStr s \<Rightarrow>
             (case split_on CHR '':'' s of
                [p0, p1] \<Rightarrow> Inr p1
              | p0 # ps \<Rightarrow> Inr p0
              | [] \<Rightarrow> Inl IndexError)
         | _ \<Rightarrow> Inl AttributeError)
      else Inr (ctx_project_id context))"

text \<open>The keyword parameters of \<^verbatim>\<open>_revoke_rule_args_to_dict\<close>; each defaults to \<^verbatim>\<open>None\<close>.\<close>

record rule_args =
  arg_to_port :: pyval
  arg_from_port :: pyval
  arg_ip_protocol :: pyval
  arg_cidr_ip :: pyval
  arg_user_id :: pyval
  arg_source_security_group_name :: pyval
  arg_source_security_group_owner_id :: pyval

text \<open>
  The source of the rule, lines 370 to 384 of \<^verbatim>\<open>_revoke_rule_args_to_dict\<close>. The
  parameter \<open>valid_cidr\<close> stands for \<^verbatim>\<open>IPy.IP\<close>, which raises on what is not an
  address or network.
\<close>

definition rule_source ::
    "(pyval \<Rightarrow> bool) \<Rightarrow> cloud_state \<Rightarrow> request_context \<Rightarrow> rule_args \<Rightarrow> error + pyval dict" where
  "rule_source valid_cidr st context a =
     (if truthy (arg_source_security_group_name a) then
        (case get_source_project_id context (arg_source_security_group_owner_id a) of
           Inl e \<Rightarrow> Inl e
         | Inr source_project_id \<Rightarrow>
             (case (case arg_source_security_group_name a of
                      PStr n \<Rightarrow> security_group_get_by_name st source_project_id n
                    | _ \<Rightarrow> Inl NotFound) of
                Inl e \<Rightarrow> Inl e
              | Inr source_security_group \<Rightarrow>
                  Inr (dict_set [] ''group_id'' (PInt (sg_id source_security_group)))))
      else if truthy (arg_cidr_ip a) then
        (if valid_cidr (arg_cidr_ip a) then Inr (dict_set [] ''cidr'' (arg_cidr_ip a))
         else Inl ValueError)
      else Inr (dict_set [] ''cidr'' (PStr ''0.0.0.0/0'')))"

text \<open>
  Lines 386 to 406. The result \<open>Inr None\<close> is the return value \<^verbatim>\<open>None\<close>.
\<close>

definition revoke_rule_args_to_dict ::
    "(pyval \<Rightarrow> bool) \<Rightarrow> cloud_state \<Rightarrow> request_context \<Rightarrow> rule_args
      \<Rightarrow> error + pyval dict option" where
  "revoke_rule_args_to_dict valid_cidr st context a =
     (case rule_source valid_cidr st context a of
        Inl e \<Rightarrow> Inl e
      | Inr vals \<Rightarrow>
          if truthy (arg_ip_protocol a) \<and> truthy (arg_from_port a) \<and> truthy (arg_to_port a) then
            (case py_int (arg_from_port a) of
               Inl e \<Rightarrow> Inl e
             | Inr from_port_i \<Rightarrow>
                 (case py_int (arg_to_port a) of
                    Inl e \<Rightarrow> Inl e
                  | Inr to_port_i \<Rightarrow>
                      let ip_protocol = py_str (arg_ip_protocol a) in
                      if upper ip_protocol \<notin> set [''TCP'', ''UDP'', ''ICMP'']
                      then Inl InvalidInput_not_a_valid_ipProtocol
                      else if min from_port_i to_port_i < - 1 \<or> max from_port_i to_port_i > 65535
                      then Inl InvalidInput_Invalid_port_range
                      else Inr (Some (dict_set (dict_set (dict_set vals
                             ''protocol'' (PStr ip_protocol))
                             ''from_port'' (PInt from_port_i))
                             ''to_port'' (PInt to_port_i)))))
          else if dict_has vals ''cidr'' then Inr None
          else Inr (Some vals))"

section \<open>Authorizing and revoking ingress rules\<close>

text \<open>
  \<^verbatim>\<open>
  def _security_group_rule_exists(self, security_group, values):
      for rule in security_group.rules:
          if 'group_id' in values:
              if rule['group_id'] == values['group_id']:
                  return True
          else:
              is_duplicate = True
              for key in ('cidr', 'from_port', 'to_port', 'protocol'):
                  if rule[key] != values[key]:
                      is_duplicate = False
                      break
              if is_duplicate:
                  return True
      return False
  \<close>
  The inner loop is \<open>is_duplicate\<close>; a key that \<^verbatim>\<open>values\<close> lacks is a \<^verbatim>\<open>KeyError\<close>.
\<close>

fun is_duplicate :: "rule \<Rightarrow> pyval dict \<Rightarrow> string list \<Rightarrow> error + bool" where
  "is_duplicate r vals [] = Inr True"
| "is_duplicate r vals (key # keys) =
     (case rule_item r key of
        Inl e \<Rightarrow> Inl e
      | Inr rv \<Rightarrow>
          (case dict_item vals key of
             Inl e \<Rightarrow> Inl e
           | Inr v \<Rightarrow> if \<not> py_eq rv v then Inr False else is_duplicate r vals keys))"

fun security_group_rule_exists :: "rule list \<Rightarrow> pyval dict \<Rightarrow> error + bool" where
  "security_group_rule_exists [] vals = Inr False"
| "security_group_rule_exists (r # rs) vals =
     (if dict_has vals ''group_id'' then
        (case rule_item r ''group_id'' of
           Inl e \<Rightarrow> Inl e
         | Inr rv \<Rightarrow>
             (case dict_item vals ''group_id'' of
                Inl e \<Rightarrow> Inl e
              | Inr v \<Rightarrow> if py_eq rv v then Inr True else security_group_rule_exists rs vals))
      else
        (case is_duplicate r vals [''cidr'', ''from_port'', ''to_port'', ''protocol''] of
           Inl e \<Rightarrow> Inl e
         | Inr dup \<Rightarrow> if dup then Inr True else security_group_rule_exists rs vals))"

text \<open>
  The parameter \<open>ensure_default\<close> stands for
  \<^verbatim>\<open>compute_api.ensure_default_security_group\<close> (absent), which works on the group
  table only. Every datastore call commits on its own, so an exception leaves
  the state as the calls before it made it.

  \<^verbatim>\<open>
  def authorize_security_group_ingress(self, context, group_name, **kwargs):
      self.compute_api.ensure_default_security_group(context)
      security_group = db.security_group_get_by_name(context, context.project_id, group_name)
      values = self._revoke_rule_args_to_dict(context, **kwargs)
      if values is None:
          raise exception.ApiError(_("Not enough parameters to build a valid rule."))
      values['parent_group_id'] = security_group.id
      if self._security_group_rule_exists(security_group, values):
          raise exception.ApiError(_('This rule already exists in group %s') % group_name)
      security_group_rule = db.security_group_rule_create(context, values)
      self.compute_api.trigger_security_group_rules_refresh(context, security_group['id'])
      return True
  \<close>
\<close>

definition authorize_security_group_ingress ::
    "(request_context \<Rightarrow> security_group list \<Rightarrow> security_group list) \<Rightarrow> (pyval \<Rightarrow> bool)
      \<Rightarrow> request_context \<Rightarrow> string \<Rightarrow> rule_args \<Rightarrow> cloud_state
      \<Rightarrow> (error + bool) \<times> cloud_state" where
  "authorize_security_group_ingress ensure_default valid_cidr context group_name kwargs st =
     (let st1 = st\<lparr>groups := ensure_default context (groups st)\<rparr> in
      case security_group_get_by_name st1 (ctx_project_id context) group_name of
        Inl e \<Rightarrow> (Inl e, st1)
      | Inr sg \<Rightarrow>
          (case revoke_rule_args_to_dict valid_cidr st1 context kwargs of
             Inl e \<Rightarrow> (Inl e, st1)
           | Inr None \<Rightarrow> (Inl ApiError_Not_enough_parameters, st1)
           | Inr (Some vals0) \<Rightarrow>
               let vals = dict_set vals0 ''parent_group_id'' (PInt (sg_id sg)) in
               (case security_group_rule_exists (security_group_rules st1 sg) vals of
                  Inl e \<Rightarrow> (Inl e, st1)
                | Inr exists \<Rightarrow>
                    if exists then (Inl ApiError_This_rule_already_exists, st1)
                    else (Inr True,
                          trigger_security_group_rules_refresh
                            (security_group_rule_create st1 vals) (sg_id sg)))))"

text \<open>
  \<^verbatim>\<open>
  def revoke_security_group_ingress(self, context, group_name, **kwargs):
      self.compute_api.ensure_default_security_group(context)
      security_group = db.security_group_get_by_name(context, context.project_id, group_name)
      criteria = self._revoke_rule_args_to_dict(context, **kwargs)
      if criteria == None:
          raise exception.ApiError(_("Not enough parameters to build a valid rule."))
      for rule in security_group.rules:
          match = True
          for (k, v) in criteria.iteritems():
              if getattr(rule, k, False) != v:
                  match = False
          if match:
              db.security_group_rule_destroy(context, rule['id'])
              self.compute_api.trigger_security_group_rules_refresh(context, security_group['id'])
              return True
      raise exception.ApiError(_("No rule for the specified parameters."))
  \<close>
  \<open>rule_matches\<close> is the inner loop; the outer loop stops at the first rule
  that matches, which is what \<open>find\<close> returns.
\<close>

definition rule_matches :: "pyval dict \<Rightarrow> rule \<Rightarrow> bool" where
  "rule_matches criteria r =
     list_all (\<lambda>(k, v). py_eq (case rule_getattr r k of None \<Rightarrow> PBool False | Some x \<Rightarrow> x) v)
       criteria"

definition revoke_security_group_ingress ::
    "(request_context \<Rightarrow> security_group list \<Rightarrow> security_group list) \<Rightarrow> (pyval \<Rightarrow> bool)
      \<Rightarrow> request_context \<Rightarrow> string \<Rightarrow> rule_args \<Rightarrow> cloud_state
      \<Rightarrow> (error + bool) \<times> cloud_state" where
  "revoke_security_group_ingress ensure_default valid_cidr context group_name kwargs st =
     (let st1 = st\<lparr>groups := ensure_default context (groups st)\<rparr> in
      case security_group_get_by_name st1 (ctx_project_id context) group_name of
        Inl e \<Rightarrow> (Inl e, st1)
      | Inr sg \<Rightarrow>
          (case revoke_rule_args_to_dict valid_cidr st1 context kwargs of
             Inl e \<Rightarrow> (Inl e, st1)
           | Inr None \<Rightarrow> (Inl ApiError_Not_enough_parameters, st1)
           | Inr (Some criteria) \<Rightarrow>
               (case find (rule_matches criteria) (security_group_rules st1 sg) of
                  None \<Rightarrow> (Inl ApiError_No_rule_for_the_specified_parameters, st1)
                | Some r \<Rightarrow>
                    (Inr True,
                     trigger_security_group_rules_refresh
                       (security_group_rule_destroy st1 (rule_id r)) (sg_id sg)))))"

section \<open>Key pairs\<close>

text \<open>
  Modelled from the spec: \<^verbatim>\<open>db.key_pair_get\<close>, \<^verbatim>\<open>db.key_pair_create\<close> and
  \<^verbatim>\<open>db.key_pair_destroy\<close> (absent) read, add and remove the key pair of a
  (user, name); reading or removing an absent one raises \<^verbatim>\<open>NotFound\<close>.
\<close>

definition key_pair_get :: "cloud_state \<Rightarrow> string \<Rightarrow> string \<Rightarrow> error + key_pair" where
  "key_pair_get st user_id key_name =
     (case find (\<lambda>k. kp_user_id k = user_id \<and> kp_name k = key_name) (key_pairs st) of
        None \<Rightarrow> Inl NotFound
      | Some k \<Rightarrow> Inr k)"

definition key_pair_create :: "cloud_state \<Rightarrow> key_pair \<Rightarrow> cloud_state" where
  "key_pair_create st key = st\<lparr>key_pairs := key_pairs st @ [key]\<rparr>"

definition key_pair_destroy :: "cloud_state \<Rightarrow> string \<Rightarrow> string \<Rightarrow> (error + unit) \<times> cloud_state" where
  "key_pair_destroy st user_id key_name =
     (case key_pair_get st user_id key_name of
        Inl e \<Rightarrow> (Inl e, st)
      | Inr k \<Rightarrow>
          (Inr (),
           st\<lparr>key_pairs :=
                filter (\<lambda>k. \<not> (kp_user_id k = user_id \<and> kp_name k = key_name)) (key_pairs st)\<rparr>))"

text \<open>
  The parameter \<open>generate_key_pair\<close> stands for \<^verbatim>\<open>crypto.generate_key_pair\<close>
  (absent); it is given the number of earlier invocations, and every
  invocation is counted in the state. \<^verbatim>\<open>exception.Duplicate\<close> is not a kind of
  \<^verbatim>\<open>exception.NotFound\<close>, so the handler lets it pass.

  \<^verbatim>\<open>
  def _gen_key(context, user_id, key_name):
      try:
          db.key_pair_get(context, user_id, key_name)
          raise exception.Duplicate("The key_pair %s already exists" % key_name)
      except exception.NotFound:
          pass
      private_key, public_key, fingerprint = crypto.generate_key_pair()
      key = {}
      key['user_id'] = user_id
      key['name'] = key_name
      key['public_key'] = public_key
      key['fingerprint'] = fingerprint
      db.key_pair_create(context, key)
      return {'private_key': private_key, 'fingerprint': fingerprint}
  \<close>
\<close>

definition gen_key ::
    "(nat \<Rightarrow> string \<times> string \<times> string) \<Rightarrow> request_context \<Rightarrow> string \<Rightarrow> string
      \<Rightarrow> cloud_state \<Rightarrow> (error + string dict) \<times> cloud_state" where
  "gen_key generate_key_pair context user_id key_name st =
     (case key_pair_get st user_id key_name of
        Inr found \<Rightarrow> (Inl Duplicate, st)
      | Inl e \<Rightarrow>
          if e \<noteq> NotFound then (Inl e, st)
          else
            (case generate_key_pair (generated st) of
               (private_key, public_key, fingerprint) \<Rightarrow>
                 let st1 = st\<lparr>generated := Suc (generated st)\<rparr>;
                     key = \<lparr>kp_user_id = user_id, kp_name = key_name,
                            kp_public_key = public_key, kp_fingerprint = fingerprint\<rparr>
                 in (Inr [(''private_key'', private_key), (''fingerprint'', fingerprint)],
                     key_pair_create st1 key)))"

text \<open>
  \<^verbatim>\<open>
  def create_key_pair(self, context, key_name, **kwargs):
      data = _gen_key(context, context.user.id, key_name)
      return {'keyName': key_name,
              'keyFingerprint': data['fingerprint'],
              'keyMaterial': data['private_key']}
  \<close>
\<close>

definition create_key_pair ::
    "(nat \<Rightarrow> string \<times> string \<times> string) \<Rightarrow> request_context \<Rightarrow> string
      \<Rightarrow> cloud_state \<Rightarrow> (error + string dict) \<times> cloud_state" where
  "create_key_pair generate_key_pair context key_name st =
     (case gen_key generate_key_pair context (ctx_user_id context) key_name st of
        (Inl e, st') \<Rightarrow> (Inl e, st')
      | (Inr data, st') \<Rightarrow>
          (case dict_item data ''fingerprint'' of
             Inl e \<Rightarrow> (Inl e, st')
           | Inr fingerprint \<Rightarrow>
               (case dict_item data ''private_key'' of
                  Inl e \<Rightarrow> (Inl e, st')
                | Inr private_key \<Rightarrow>
                    (Inr [(''keyName'', key_name), (''keyFingerprint'', fingerprint),
                          (''keyMaterial'', private_key)], st'))))"

text \<open>
  \<^verbatim>\<open>
  def delete_key_pair(self, context, key_name, **kwargs):
      try:
          db.key_pair_destroy(context, context.user.id, key_name)
      except exception.NotFound:
          # aws returns true even if the key doesn't exist
          pass
      return True
  \<close>
\<close>

definition delete_key_pair ::
    "request_context \<Rightarrow> string \<Rightarrow> cloud_state \<Rightarrow> (error + bool) \<times> cloud_state" where
  "delete_key_pair context key_name st =
     (case key_pair_destroy st (ctx_user_id context) key_name of
        (Inl e, st') \<Rightarrow> if e = NotFound then (Inr True, st') else (Inl e, st')
      | (Inr u, st') \<Rightarrow> (Inr True, st'))"

section \<open>Resource formatters\<close>

subsection \<open>Volumes\<close>

record volume_instance =
  vi_id :: int
  vi_host :: pyval

record volume =
  vol_id :: pyval
  vol_ec2_id :: pyval
  vol_status :: pyval
  vol_size :: pyval
  vol_availability_zone :: pyval
  vol_created_at :: pyval
  vol_user_id :: pyval
  vol_host :: pyval
  vol_mountpoint :: pyval
  vol_attach_status :: pyval
  vol_attach_time :: pyval
  vol_display_name :: pyval
  vol_display_description :: pyval
  vol_instance :: "volume_instance option"

text \<open>The dictionary \<^verbatim>\<open>v\<close> that \<^verbatim>\<open>_format_volume\<close> returns; all its keys are always set.\<close>

record formatted_volume =
  fv_volumeId :: pyval
  fv_status :: pyval
  fv_size :: pyval
  fv_availabilityZone :: pyval
  fv_createTime :: pyval
  fv_attachmentSet :: "pyval dict list"
  fv_display_name :: pyval
  fv_display_description :: pyval

text \<open>
  Lines 550 to 583. A volume's \<^verbatim>\<open>instance\<close> is an instance or absent. The result is
  \<open>None\<close> when the call does not return, which is when \<^verbatim>\<open>id_to_ec2_id\<close> does not.
\<close>

definition format_volume :: "request_context \<Rightarrow> volume \<Rightarrow> formatted_volume option" where
  "format_volume context vol =
     (case (case vol_instance vol of
              None \<Rightarrow> Some (PNone, PNone)
            | Some i \<Rightarrow>
                (case id_to_ec2_id (vi_id i) of
                   None \<Rightarrow> None
                 | Some e \<Rightarrow> Some (PStr e, PStr (e @ ''['' @ py_str (vi_host i) @ '']'')))) of
        None \<Rightarrow> None
      | Some (instance_ec2_id, instance_data) \<Rightarrow>
          Some \<lparr>fv_volumeId = vol_id vol,
                fv_status =
                  (if ctx_is_admin context then
                     PStr (py_str (vol_status vol) @ '' ('' @ py_str (vol_user_id vol) @ '', ''
                           @ py_str (vol_host vol) @ '', '' @ py_str instance_data @ '', ''
                           @ py_str (vol_mountpoint vol) @ '')'')
                   else vol_status vol),
                fv_size = vol_size vol,
                fv_availabilityZone = vol_availability_zone vol,
                fv_createTime = vol_created_at vol,
                fv_attachmentSet =
                  (if py_eq (vol_attach_status vol) (PStr ''attached'') then
                     [[(''attachTime'', vol_attach_time vol),
                       (''deleteOnTermination'', PBool False),
                       (''device'', vol_mountpoint vol),
                       (''instanceId'', instance_ec2_id),
                       (''status'', PStr ''attached''),
                       (''volume_id'', vol_ec2_id vol)]]
                   else [[]]),
                fv_display_name = vol_display_name vol,
                fv_display_description = vol_display_description vol\<rparr>)"

subsection \<open>Instances and reservations\<close>












section \<open>Running instances\<close>






section \<open>Auxiliary definitions for the proofs\<close>

text \<open>
  The base-36 digits of a natural number, least significant first: what the
  loop of \<^verbatim>\<open>id_to_ec2_id\<close> appends, as a total function.
\<close>

fun lsd36 :: "nat \<Rightarrow> string" where
  "lsd36 n = (if n = 0 then [] else digits36 ! (n mod 36) # lsd36 (n div 36))"

declare lsd36.simps [simp del]

text \<open>
  Canonical equality in the words of the specification: a value set that refers to
  a source group equals a rule whose \<^verbatim>\<open>group_id\<close> is the same, ports and protocol
  ignored; a value set over a CIDR equals a rule whose \<^verbatim>\<open>cidr\<close>, \<^verbatim>\<open>from_port\<close>,
  \<^verbatim>\<open>to_port\<close> and \<^verbatim>\<open>protocol\<close> are all the same.
\<close>

definition canonically_equal :: "pyval dict \<Rightarrow> rule \<Rightarrow> bool" where
  "canonically_equal vals r =
     (case map_of vals ''group_id'' of
        Some g \<Rightarrow> py_eq (group_id r) g
      | None \<Rightarrow>
          py_eq (cidr r) (column vals ''cidr'') \<and> py_eq (from_port r) (column vals ''from_port'') \<and>
          py_eq (to_port r) (column vals ''to_port'') \<and> py_eq (protocol r) (column vals ''protocol''))"

section \<open>Example data\<close>

text \<open>
  The concrete inputs of the examples below. \<open>default_rule_args\<close> is a call of
  \<^verbatim>\<open>_revoke_rule_args_to_dict\<close> that passes no keyword argument. In \<open>example_state\<close>
  the group \<^verbatim>\<open>web\<close> has a rule over a CIDR and two rules that refer to the group
  \<^verbatim>\<open>db\<close>.
\<close>

definition example_context :: request_context where
  "example_context =
     \<lparr>ctx_user_id = ''alice'', ctx_user_is_admin = False, ctx_is_admin = False,
      ctx_project_id = ''proj''\<rparr>"

definition default_rule_args :: rule_args where
  "default_rule_args =
     \<lparr>arg_to_port = PNone, arg_from_port = PNone, arg_ip_protocol = PNone,
      arg_cidr_ip = PNone, arg_user_id = PNone, arg_source_security_group_name = PNone,
      arg_source_security_group_owner_id = PNone\<rparr>"

definition example_state :: cloud_state where
  "example_state =
     \<lparr>groups =
        [\<lparr>sg_id = 1, sg_project_id = ''proj'', sg_name = ''web'', sg_description = ''web servers''\<rparr>,
         \<lparr>sg_id = 2, sg_project_id = ''proj'', sg_name = ''db'', sg_description = ''databases''\<rparr>,
         \<lparr>sg_id = 3, sg_project_id = ''proj'', sg_name = ''cache'', sg_description = ''caches''\<rparr>],
      rules =
        [\<lparr>rule_id = 1, parent_group_id = PInt 1, protocol = PStr ''tcp'', from_port = PInt 80,
          to_port = PInt 80, cidr = PStr ''10.0.0.0/8'', group_id = PNone\<rparr>,
         \<lparr>rule_id = 2, parent_group_id = PInt 1, protocol = PStr ''tcp'', from_port = PInt 22,
          to_port = PInt 22, cidr = PNone, group_id = PInt 2\<rparr>,
         \<lparr>rule_id = 3, parent_group_id = PInt 2, protocol = PStr ''tcp'', from_port = PInt 22,
          to_port = PInt 22, cidr = PNone, group_id = PInt 2\<rparr>,
         \<lparr>rule_id = 4, parent_group_id = PInt 1, protocol = PStr ''udp'', from_port = PInt 53,
          to_port = PInt 53, cidr = PNone, group_id = PInt 2\<rparr>],
      key_pairs =
        [\<lparr>kp_user_id = ''alice'', kp_name = ''laptop'', kp_public_key = ''ssh-rsa AAAA'',
          kp_fingerprint = ''aa:bb''\<rparr>],
      refreshed = [],
      generated = 0\<rparr>"

definition example_volume :: volume where
  "example_volume =
     \<lparr>vol_id = PInt 7, vol_ec2_id = PStr ''vol-7'', vol_status = PStr ''in-use'',
      vol_size = PInt 10, vol_availability_zone = PStr ''nova'',
      vol_created_at = PStr ''2011-01-01'', vol_user_id = PStr ''alice'',
      vol_host = PStr ''node1'', vol_mountpoint = PStr ''/dev/vdb'',
      vol_attach_status = PStr ''attached'', vol_attach_time = PStr ''2011-01-02'',
      vol_display_name = PNone, vol_display_description = PNone,
      vol_instance = Some \<lparr>vi_id = 36, vi_host = PStr ''node1''\<rparr>\<rparr>"






section \<open>Properties of the identifier codec\<close>

lemma id_loop_nat: "id_loop (int n) ds = Some (ds @ lsd36 n)"
proof (induction n arbitrary: ds rule: lsd36.induct)
  case (1 n)
  show ?case
  proof (cases "n = 0")
    case True
    then show ?thesis by (simp add: id_loop.simps lsd36.simps)
  next
    case False
    have d: "int n div 36 = int (n div 36)" by (simp add: zdiv_int)
    have m: "nat (int n mod 36) = n mod 36" by (simp add: nat_mod_distrib)
    have "id_loop (int n) ds = id_loop (int (n div 36)) (ds @ [digits36 ! (n mod 36)])"
      using False by (subst id_loop.simps) (simp add: d m)
    also have "\<dots> = Some ((ds @ [digits36 ! (n mod 36)]) @ lsd36 (n div 36))"
      using "1.IH" [OF False] by simp
    also have "\<dots> = Some (ds @ lsd36 n)"
      using False by (subst (2) lsd36.simps) simp
    finally show ?thesis .
  qed
qed

lemma id_to_ec2_id_nat: "id_to_ec2_id (int n) = Some (''i-'' @ rev (lsd36 n))"
  by (simp add: id_to_ec2_id_def id_loop_nat [of n "[]", simplified])

lemma digits36_length: "length digits36 = 36" by (simp add: digits36_def)

lemma index_of_nth: "distinct xs \<Longrightarrow> i < length xs \<Longrightarrow> index_of (xs ! i) xs = Some i"
proof (induction xs arbitrary: i)
  case Nil
  then show ?case by simp
next
  case (Cons x xs)
  show ?case
  proof (cases i)
    case 0
    then show ?thesis by simp
  next
    case (Suc j)
    then have "xs ! j \<in> set xs" using Cons.prems by simp
    then have "xs ! j \<noteq> x" using Cons.prems by auto
    then show ?thesis using Suc Cons by simp
  qed
qed

lemma distinct_digits36: "distinct digits36"
  by (simp add: digits36_def)

lemma digit_value_digits36: "r < 36 \<Longrightarrow> digit_value (digits36 ! r) = Some r"
  by (simp add: digit_value_def index_of_nth distinct_digits36 digits36_length)

lemma digits_value_append:
  "digits_value b (xs @ ys) acc =
     (case digits_value b xs acc of None \<Rightarrow> None | Some a \<Rightarrow> digits_value b ys a)"
  by (induction xs arbitrary: acc) (auto split: option.splits)

lemma digits_value_lsd36: "digits_value 36 (rev (lsd36 n)) 0 = Some n"
proof (induction n rule: lsd36.induct)
  case (1 n)
  show ?case
  proof (cases "n = 0")
    case True then show ?thesis by (simp add: lsd36.simps)
  next
    case False
    have "rev (lsd36 n) = rev (lsd36 (n div 36)) @ [digits36 ! (n mod 36)]"
      using False by (subst lsd36.simps) simp
    then show ?thesis using "1.IH" [OF False]
      by (simp add: digits_value_append digit_value_digits36)
  qed
qed

lemma lsd36_chars: "set (lsd36 n) \<subseteq> set digits36"
proof (induction n rule: lsd36.induct)
  case (1 n)
  show ?case
  proof (cases "n = 0")
    case True then show ?thesis by (simp add: lsd36.simps)
  next
    case False
    have "digits36 ! (n mod 36) \<in> set digits36"
      by (rule nth_mem) (simp add: digits36_length)
    then show ?thesis using False "1.IH" [OF False] by (subst lsd36.simps) simp
  qed
qed

lemma digits36_plain:
  "c \<in> set digits36 \<Longrightarrow> \<not> isspace c \<and> c \<noteq> CHR ''-'' \<and> c \<noteq> CHR ''+''"
  by (auto simp: digits36_def isspace_def)

lemma strip_plain:
  "s \<noteq> [] \<Longrightarrow> \<not> isspace (hd s) \<Longrightarrow> \<not> isspace (last s) \<Longrightarrow> strip s = s"
proof -
  assume a: "s \<noteq> []" "\<not> isspace (hd s)" "\<not> isspace (last s)"
  have 1: "dropWhile isspace s = s" using a by (cases s) auto
  have 2: "dropWhile isspace (rev s) = rev s" using a by (cases s rule: rev_cases) auto
  show ?thesis by (simp add: strip_def 1 2)
qed

lemma int_of_string_plain:
  assumes "ds \<noteq> []" "set ds \<subseteq> set digits36" "digits_value b ds 0 = Some v"
  shows "int_of_string b ds = Inr (int v)"
proof -
  have h: "hd ds \<in> set digits36" "last ds \<in> set digits36" using assms by auto
  have s: "strip ds = ds" using assms(1) h digits36_plain by (intro strip_plain) auto
  obtain c r where cr: "ds = c # r" using assms(1) by (cases ds) auto
  have "c \<noteq> CHR ''-''" "c \<noteq> CHR ''+''" using h(1) digits36_plain cr by auto
  then show ?thesis using assms(3) cr s by (simp add: int_of_string_def)
qed

text \<open>For every positive id the encoder returns and the decoder inverts it.\<close>

lemma roundtrip_positive:
  "0 < n \<Longrightarrow> \<exists>e. id_to_ec2_id n = Some e \<and> ec2_id_to_id e = Inr n"
proof -
  assume n: "0 < n"
  define m where "m = nat n"
  have nm: "n = int m" "m \<noteq> 0" using n by (simp_all add: m_def)
  have ne: "rev (lsd36 m) \<noteq> []" using nm(2) by (subst lsd36.simps) simp
  have "ec2_id_to_id (''i-'' @ rev (lsd36 m)) = Inr (int m)"
    unfolding ec2_id_to_id_def using int_of_string_plain [OF ne _ digits_value_lsd36] lsd36_chars [of m]
    by simp
  then show ?thesis using id_to_ec2_id_nat [of m] nm by simp
qed

text \<open>A negative id keeps the loop running: the encoder returns for non-negative ids only.\<close>

lemma id_loop_Some_nonneg:
  assumes "id_loop n ds = Some r"
  shows "0 \<le> n"
proof (rule id_loop.raw_induct [where P = "\<lambda>n ds r. 0 \<le> n", OF _ assms])
  fix f :: "int \<Rightarrow> string \<Rightarrow> string option" and n ds r
  assume IH: "\<And>n' ds' r'. f n' ds' = Some r' \<Longrightarrow> 0 \<le> n'"
    and eq: "(if n \<noteq> 0 then f (n div 36) (ds @ [digits36 ! nat (n mod 36)]) else Some ds) = Some r"
  show "0 \<le> n"
  proof (cases "n = 0")
    case True
    then show ?thesis by simp
  next
    case False
    then have "f (n div 36) (ds @ [digits36 ! nat (n mod 36)]) = Some r"
      using eq by simp
    then have "0 \<le> n div 36" by (rule IH)
    then show ?thesis by (simp add: pos_imp_zdiv_nonneg_iff)
  qed
qed

lemma id_to_ec2_id_negative: "n < 0 \<Longrightarrow> id_to_ec2_id n = None"
  using id_loop_Some_nonneg [of n "[]"]
  by (cases "id_loop n []") (auto simp: id_to_ec2_id_def)

lemma id_to_ec2_id_Some:
  "id_to_ec2_id n = Some e \<Longrightarrow> 0 \<le> n \<and> e = ''i-'' @ rev (lsd36 (nat n))"
proof -
  assume a: "id_to_ec2_id n = Some e"
  then have "0 \<le> n" using id_to_ec2_id_negative [of n] by (cases "n < 0") auto
  then show ?thesis using a id_to_ec2_id_nat [of "nat n"] by simp
qed

text \<open>
  Claim C1 says that decoding the encoded id gives the id back for every
  non-negative integer, zero included. For zero the loop of \<^verbatim>\<open>id_to_ec2_id\<close>
  appends no digit, the external id is the bare prefix, and \<^verbatim>\<open>int('', 36)\<close>
  raises \<^verbatim>\<open>ValueError\<close>: the round trip fails at zero.
\<close>

theorem id_codec_zero_no_roundtrip:
  "id_to_ec2_id 0 = Some ''i-'' \<and> ec2_id_to_id ''i-'' = Inl ValueError"
  by (simp add: id_to_ec2_id_def id_loop.simps ec2_id_to_id_def int_of_string_def strip_def)

lemma index_of_None: "(index_of c xs = None) = (c \<notin> set xs)"
  by (induction xs) auto

lemma index_of_less: "index_of c xs = Some i \<Longrightarrow> i < length xs"
  by (induction xs arbitrary: i) (auto split: if_splits)

lemma digit_value_None:
  "c \<notin> set digits36 \<Longrightarrow> c \<notin> set upper36 \<Longrightarrow> digit_value c = None"
  using index_of_None [of c digits36] index_of_None [of c upper36]
  by (simp add: digit_value_def)

lemma digit_value_lower:
  assumes "c \<in> set digits36"
  shows "\<exists>v. digit_value c = Some v \<and> v < 36"
proof -
  from assms obtain i where i: "index_of c digits36 = Some i"
    using index_of_None [of c digits36] by (cases "index_of c digits36") auto
  then have "i < 36" using index_of_less [OF i] by (simp add: digits36_length)
  then show ?thesis using i by (simp add: digit_value_def)
qed

lemma digits_value_bad:
  "c \<in> set ds \<Longrightarrow> digit_value c = None \<Longrightarrow> digits_value b ds acc = None"
  by (induction ds arbitrary: acc) (auto split: option.splits)

lemma digits_value_lower:
  "set ds \<subseteq> set digits36 \<Longrightarrow> \<exists>v. digits_value 36 ds acc = Some v"
proof (induction ds arbitrary: acc)
  case Nil
  then show ?case by simp
next
  case (Cons c ds)
  then obtain v where "digit_value c = Some v" "v < 36"
    using digit_value_lower [of c] by auto
  then show ?case using Cons by simp
qed

lemma in_dropWhile: "c \<in> set s \<Longrightarrow> \<not> P c \<Longrightarrow> c \<in> set (dropWhile P s)"
  by (induction s) auto

lemma in_strip: "c \<in> set s \<Longrightarrow> \<not> isspace c \<Longrightarrow> c \<in> set (strip s)"
  by (simp add: strip_def in_dropWhile)

lemma int_of_string_bad:
  assumes "c \<in> set s" "digit_value c = None" "\<not> isspace c" "c \<noteq> CHR ''+''" "c \<noteq> CHR ''-''"
  shows "int_of_string b s = Inl ValueError"
proof -
  have t: "c \<in> set (strip s)" using assms by (simp add: in_strip)
  show ?thesis
  proof (cases "strip s")
    case Nil
    then show ?thesis using t by simp
  next
    case (Cons c' r)
    then have "c' = c \<or> c \<in> set r" using t by auto
    then have "c \<in> set r \<or> (c' \<noteq> CHR ''-'' \<and> c' \<noteq> CHR ''+'')" using assms by auto
    moreover have "digits_value b r 0 = None" if "c \<in> set r"
      using that assms(2) by (rule digits_value_bad)
    moreover have "digits_value b (c' # r) 0 = None"
      using t Cons assms(2) digits_value_bad [of c "c' # r"] by simp
    ultimately show ?thesis using Cons
      by (auto simp: int_of_string_def split: option.splits)
  qed
qed

lemma int_of_string_lower:
  assumes "ds \<noteq> []" "set ds \<subseteq> set digits36"
  shows "\<exists>n. int_of_string 36 ds = Inr n \<and> 0 \<le> n"
proof -
  obtain v where "digits_value 36 ds 0 = Some v" using digits_value_lower [OF assms(2)] by blast
  then show ?thesis using int_of_string_plain [OF assms] by simp
qed















section \<open>Facts about the builtins\<close>

lemma py_eq_PStr [simp]: "py_eq x (PStr s) = (x = PStr s)"
  by (cases x) auto

lemma py_eq_PInt_PInt: "py_eq (PInt a) (PInt b) = (a = b)" by simp

section \<open>Properties of the key-pair operations\<close>

text \<open>
  Claim C9: deleting a key pair always returns \<^verbatim>\<open>True\<close> and raises nothing, whether
  the key pair exists or not; when the caller has no key pair of that name the
  state is left as it was.
\<close>
theorem delete_key_pair_tolerant:
  "fst (delete_key_pair context key_name st) = Inr True \<and>
   (key_pair_get st (ctx_user_id context) key_name = Inl NotFound \<longrightarrow>
      snd (delete_key_pair context key_name st) = st)"
  by (auto simp: delete_key_pair_def key_pair_destroy_def key_pair_get_def
           split: option.splits)

theorem delete_key_pair_tolerant_witness:
  "key_pair_get example_state (ctx_user_id example_context) ''desktop'' = Inl NotFound \<and>
   delete_key_pair example_context ''desktop'' example_state = (Inr True, example_state)"
proof -
  have nf: "key_pair_get example_state (ctx_user_id example_context) ''desktop'' = Inl NotFound"
    by (simp add: key_pair_get_def example_state_def example_context_def)
  from delete_key_pair_tolerant [of example_context "''desktop''" example_state] nf
  show ?thesis by (simp add: prod_eq_iff)
qed

text \<open>
  Claim C8: creating a key pair whose (user, name) is already stored fails with
  \<^verbatim>\<open>Duplicate\<close> and returns the state unchanged, whatever the generator is: the
  key pairs are as before and the count of generator invocations has not moved.
  A request that is not doomed does invoke the generator, once.
\<close>
theorem create_key_pair_duplicate:
  "(key_pair_get st (ctx_user_id context) key_name = Inr k \<longrightarrow>
      create_key_pair generate_key_pair context key_name st = (Inl Duplicate, st)) \<and>
   (key_pair_get st (ctx_user_id context) key_name = Inl NotFound \<longrightarrow>
      generated (snd (create_key_pair generate_key_pair context key_name st))
        = Suc (generated st))"
  by (auto simp: create_key_pair_def gen_key_def key_pair_create_def dict_item_def
           split: prod.splits)

theorem create_key_pair_duplicate_witness:
  "key_pair_get example_state (ctx_user_id example_context) ''laptop''
     = Inr \<lparr>kp_user_id = ''alice'', kp_name = ''laptop'', kp_public_key = ''ssh-rsa AAAA'',
            kp_fingerprint = ''aa:bb''\<rparr> \<and>
   create_key_pair (\<lambda>n. (''priv'', ''pub'', ''fp'')) example_context ''laptop'' example_state
     = (Inl Duplicate, example_state) \<and>
   key_pair_get example_state (ctx_user_id example_context) ''desktop'' = Inl NotFound \<and>
   generated (snd (create_key_pair (\<lambda>n. (''priv'', ''pub'', ''fp'')) example_context
                     ''desktop'' example_state)) = 1"
proof -
  have f: "key_pair_get example_state (ctx_user_id example_context) ''laptop''
     = Inr \<lparr>kp_user_id = ''alice'', kp_name = ''laptop'', kp_public_key = ''ssh-rsa AAAA'',
            kp_fingerprint = ''aa:bb''\<rparr>"
    by (simp add: key_pair_get_def example_state_def example_context_def)
  have nf: "key_pair_get example_state (ctx_user_id example_context) ''desktop'' = Inl NotFound"
    by (simp add: key_pair_get_def example_state_def example_context_def)
  have g: "generated example_state = 0" by (simp add: example_state_def)
  from create_key_pair_duplicate [of example_state example_context "''laptop''" _
         "\<lambda>n. (''priv'', ''pub'', ''fp'')"]
       create_key_pair_duplicate [of example_state example_context "''desktop''" _
         "\<lambda>n. (''priv'', ''pub'', ''fp'')"] f nf g
  show ?thesis by simp
qed

section \<open>Properties of the volume formatter\<close>

text \<open>
  Claim C10: whenever \<^verbatim>\<open>_format_volume\<close> returns, the \<^verbatim>\<open>attachmentSet\<close> is the list
  of one empty dictionary if the attach status is not \<^verbatim>\<open>"attached"\<close>, and
  otherwise the list of one entry that carries the attach time, the device (the
  mountpoint), the external id of the instance and the status \<^verbatim>\<open>"attached"\<close>.
  It returns exactly when the volume has no instance or one whose id is not
  negative.
\<close>

theorem format_volume_attachmentSet:
  "(format_volume context vol = Some v \<longrightarrow>
      (vol_attach_status vol \<noteq> PStr ''attached'' \<longrightarrow> fv_attachmentSet v = [[]]) \<and>
      (vol_attach_status vol = PStr ''attached'' \<longrightarrow>
         fv_attachmentSet v =
           [[(''attachTime'', vol_attach_time vol),
             (''deleteOnTermination'', PBool False),
             (''device'', vol_mountpoint vol),
             (''instanceId'',
                case vol_instance vol of
                  None \<Rightarrow> PNone
                | Some i \<Rightarrow> PStr (''i-'' @ rev (lsd36 (nat (vi_id i))))),
             (''status'', PStr ''attached''),
             (''volume_id'', vol_ec2_id vol)]])) \<and>
   ((\<exists>v'. format_volume context vol = Some v') =
      (case vol_instance vol of None \<Rightarrow> True | Some i \<Rightarrow> 0 \<le> vi_id i))"
proof (cases "vol_instance vol")
  case None
  then show ?thesis by (auto simp: format_volume_def)
next
  case (Some i)
  show ?thesis
  proof (cases "0 \<le> vi_id i")
    case True
    then have "id_to_ec2_id (vi_id i) = Some (''i-'' @ rev (lsd36 (nat (vi_id i))))"
      using id_to_ec2_id_nat [of "nat (vi_id i)"] by simp
    then show ?thesis using Some True by (auto simp: format_volume_def)
  next
    case False
    then have "id_to_ec2_id (vi_id i) = None" by (simp add: id_to_ec2_id_negative)
    then show ?thesis using Some False by (simp add: format_volume_def)
  qed
qed

theorem format_volume_attachmentSet_witness:
  "vol_instance example_volume = Some \<lparr>vi_id = 36, vi_host = PStr ''node1''\<rparr> \<and>
   (\<exists>v. format_volume example_context example_volume = Some v \<and>
        fv_attachmentSet v =
          [[(''attachTime'', PStr ''2011-01-02''), (''deleteOnTermination'', PBool False),
            (''device'', PStr ''/dev/vdb''), (''instanceId'', PStr ''i-10''),
            (''status'', PStr ''attached''), (''volume_id'', PStr ''vol-7'')]]) \<and>
   (\<exists>v. format_volume example_context (example_volume\<lparr>vol_attach_status := PStr ''detached''\<rparr>)
          = Some v \<and> fv_attachmentSet v = [[]])"
proof -
  have i: "vol_instance example_volume = Some \<lparr>vi_id = 36, vi_host = PStr ''node1''\<rparr>"
    by (simp add: example_volume_def)
  have d: "rev (lsd36 36) = ''10''" by (simp add: lsd36.simps digits36_def)
  have "\<exists>v. format_volume example_context example_volume = Some v"
    using format_volume_attachmentSet [of example_context example_volume] i by simp
  then obtain v where v: "format_volume example_context example_volume = Some v" ..
  have 1: "fv_attachmentSet v =
          [[(''attachTime'', PStr ''2011-01-02''), (''deleteOnTermination'', PBool False),
            (''device'', PStr ''/dev/vdb''), (''instanceId'', PStr ''i-10''),
            (''status'', PStr ''attached''), (''volume_id'', PStr ''vol-7'')]]"
    using format_volume_attachmentSet [of example_context example_volume v] v i d
    by (simp add: example_volume_def)
  let ?d = "example_volume\<lparr>vol_attach_status := PStr ''detached''\<rparr>"
  have "\<exists>w. format_volume example_context ?d = Some w"
    using format_volume_attachmentSet [of example_context ?d] i by simp
  then obtain w where w: "format_volume example_context ?d = Some w" ..
  have 2: "fv_attachmentSet w = [[]]"
    using format_volume_attachmentSet [of example_context ?d w] w
    by (simp add: example_volume_def)
  from i v 1 w 2 show ?thesis by blast
qed

section \<open>Properties of the rule canonicalizer\<close>

lemma default_source:
  "rule_source valid_cidr st context
     (default_rule_args\<lparr>arg_from_port := f, arg_to_port := t, arg_ip_protocol := p\<rparr>)
   = Inr [(''cidr'', PStr ''0.0.0.0/0'')]"
  by (simp add: rule_source_def default_rule_args_def)

text \<open>
  Claim C2 says that with protocol and both ports supplied the range 0 to 65535
  is accepted and 0 to 65536 is rejected as an invalid port range. The code
  tests the presence of the ports by their truth value, and the integer 0 is
  false: with \<^verbatim>\<open>from_port=0\<close> the protocol and ports count as absent, and the rule
  over the default CIDR comes back as \<^verbatim>\<open>None\<close>, for 65535 and for 65536 alike.
\<close>

theorem canonicalize_integer_port_zero:
  "revoke_rule_args_to_dict valid_cidr st context
     (default_rule_args\<lparr>arg_from_port := PInt 0, arg_to_port := PInt 65535,
                        arg_ip_protocol := PStr ''tcp''\<rparr>) = Inr None \<and>
   revoke_rule_args_to_dict valid_cidr st context
     (default_rule_args\<lparr>arg_from_port := PInt 0, arg_to_port := PInt 65536,
                        arg_ip_protocol := PStr ''tcp''\<rparr>) = Inr None"
  by (simp add: revoke_rule_args_to_dict_def default_source dict_has_def)

lemma upper_examples:
  "upper ''tcp'' = ''TCP''" "upper ''ICMP'' = ''ICMP''" "upper ''gre'' = ''GRE''"
  by (simp_all add: upper_def upper_char_def lower26_def upper26_def)

lemma int_of_string_examples:
  "int_of_string 10 ''0'' = Inr 0" "int_of_string 10 ''65535'' = Inr 65535"
  "int_of_string 10 ''65536'' = Inr 65536"
  by (simp_all add: int_of_string_def strip_def isspace_def digit_value_def digits36_def upper36_def)

text \<open>
  The rest of what claim C2 says does hold: ports given as strings are read
  and checked against the range, the sentinel -1 is legal, and a protocol
  outside TCP, UDP and ICMP is refused.
\<close>

lemma canonicalize_port_bounds:
  "revoke_rule_args_to_dict valid_cidr st context
     (default_rule_args\<lparr>arg_from_port := PStr ''0'', arg_to_port := PStr ''65535'',
                        arg_ip_protocol := PStr ''tcp''\<rparr>)
   = Inr (Some [(''cidr'', PStr ''0.0.0.0/0''), (''protocol'', PStr ''tcp''),
                (''from_port'', PInt 0), (''to_port'', PInt 65535)])"
  "revoke_rule_args_to_dict valid_cidr st context
     (default_rule_args\<lparr>arg_from_port := PStr ''0'', arg_to_port := PStr ''65536'',
                        arg_ip_protocol := PStr ''tcp''\<rparr>)
   = Inl InvalidInput_Invalid_port_range"
  "revoke_rule_args_to_dict valid_cidr st context
     (default_rule_args\<lparr>arg_from_port := PInt (- 1), arg_to_port := PInt (- 1),
                        arg_ip_protocol := PStr ''ICMP''\<rparr>)
   = Inr (Some [(''cidr'', PStr ''0.0.0.0/0''), (''protocol'', PStr ''ICMP''),
                (''from_port'', PInt (- 1)), (''to_port'', PInt (- 1))])"
  "revoke_rule_args_to_dict valid_cidr st context
     (default_rule_args\<lparr>arg_from_port := PInt 1, arg_to_port := PInt 2,
                        arg_ip_protocol := PStr ''gre''\<rparr>)
   = Inl InvalidInput_not_a_valid_ipProtocol"
  by (simp_all add: revoke_rule_args_to_dict_def default_source dict_has_def upper_examples
        int_of_string_examples)

lemma canonicalize_invalid_protocol:
  assumes "rule_source valid_cidr st context a = Inr vals"
    and "truthy (arg_ip_protocol a)" "truthy (arg_from_port a)" "truthy (arg_to_port a)"
    and "py_int (arg_from_port a) = Inr f" "py_int (arg_to_port a) = Inr t"
    and "upper (py_str (arg_ip_protocol a)) \<notin> {''TCP'', ''UDP'', ''ICMP''}"
  shows "revoke_rule_args_to_dict valid_cidr st context a = Inl InvalidInput_not_a_valid_ipProtocol"
  using assms by (simp add: revoke_rule_args_to_dict_def)

text \<open>
  Claim C4: for a rule over a CIDR (one that \<^verbatim>\<open>IPy.IP\<close> accepts, or the default
  when none is given) with the protocol or a port absent,
  \<^verbatim>\<open>_revoke_rule_args_to_dict\<close> returns \<^verbatim>\<open>None\<close> and raises nothing; for a rule
  over a source group that exists, it returns the value set that holds the
  group id only.
\<close>

theorem cidr_rule_underspecified:
  "(\<not> truthy (arg_source_security_group_name a) \<and>
    (truthy (arg_cidr_ip a) \<longrightarrow> valid_cidr (arg_cidr_ip a)) \<and>
    (arg_ip_protocol a = PNone \<or> arg_from_port a = PNone \<or> arg_to_port a = PNone)
      \<longrightarrow> revoke_rule_args_to_dict valid_cidr st context a = Inr None) \<and>
   (arg_source_security_group_name a = PStr n \<and> n \<noteq> [] \<and>
    get_source_project_id context (arg_source_security_group_owner_id a) = Inr pid \<and>
    security_group_get_by_name st pid n = Inr g \<and>
    (arg_ip_protocol a = PNone \<or> arg_from_port a = PNone \<or> arg_to_port a = PNone)
      \<longrightarrow> revoke_rule_args_to_dict valid_cidr st context a
            = Inr (Some [(''group_id'', PInt (sg_id g))]))"
  by (auto simp: revoke_rule_args_to_dict_def rule_source_def dict_has_def)

theorem cidr_rule_underspecified_witness:
  "revoke_rule_args_to_dict (\<lambda>c. c = PStr ''10.0.0.0/8'') example_state example_context
     (default_rule_args\<lparr>arg_cidr_ip := PStr ''10.0.0.0/8'', arg_ip_protocol := PStr ''tcp'',
                        arg_from_port := PInt 80\<rparr>) = Inr None \<and>
   revoke_rule_args_to_dict (\<lambda>c. c = PStr ''10.0.0.0/8'') example_state example_context
     (default_rule_args\<lparr>arg_ip_protocol := PStr ''tcp''\<rparr>) = Inr None \<and>
   revoke_rule_args_to_dict (\<lambda>c. c = PStr ''10.0.0.0/8'') example_state example_context
     (default_rule_args\<lparr>arg_source_security_group_name := PStr ''db''\<rparr>)
     = Inr (Some [(''group_id'', PInt 2)])"
proof -
  have g: "security_group_get_by_name example_state ''proj'' ''db''
             = Inr \<lparr>sg_id = 2, sg_project_id = ''proj'', sg_name = ''db'', sg_description = ''databases''\<rparr>"
    by (simp add: security_group_get_by_name_def example_state_def)
  have p: "get_source_project_id example_context PNone = Inr ''proj''"
    by (simp add: get_source_project_id_def example_context_def)
  from cidr_rule_underspecified [of "default_rule_args\<lparr>arg_cidr_ip := PStr ''10.0.0.0/8'',
           arg_ip_protocol := PStr ''tcp'', arg_from_port := PInt 80\<rparr>"
           "\<lambda>c. c = PStr ''10.0.0.0/8''" example_state example_context]
       cidr_rule_underspecified [of "default_rule_args\<lparr>arg_ip_protocol := PStr ''tcp''\<rparr>"
           "\<lambda>c. c = PStr ''10.0.0.0/8''" example_state example_context]
       cidr_rule_underspecified [of "default_rule_args\<lparr>arg_source_security_group_name := PStr ''db''\<rparr>"
           "\<lambda>c. c = PStr ''10.0.0.0/8''" example_state example_context "''db''" "''proj''"
           "\<lparr>sg_id = 2, sg_project_id = ''proj'', sg_name = ''db'', sg_description = ''databases''\<rparr>"]
       g p
  show ?thesis by (simp add: default_rule_args_def)
qed

section \<open>Properties of authorizing and revoking\<close>

lemma map_of_dict_set: "map_of (dict_set d k v) = (map_of d)(k \<mapsto> v)"
  by (induction d k v rule: dict_set.induct) auto

lemma rule_item_simps:
  "rule_item r ''group_id'' = Inr (group_id r)"
  "rule_item r ''cidr'' = Inr (cidr r)"
  "rule_item r ''from_port'' = Inr (from_port r)"
  "rule_item r ''to_port'' = Inr (to_port r)"
  "rule_item r ''protocol'' = Inr (protocol r)"
  by (simp_all add: rule_item_def rule_getattr_def)

lemma rule_getattr_simps:
  "rule_getattr r ''group_id'' = Some (group_id r)"
  "rule_getattr r ''cidr'' = Some (cidr r)"
  "rule_getattr r ''from_port'' = Some (from_port r)"
  "rule_getattr r ''to_port'' = Some (to_port r)"
  "rule_getattr r ''protocol'' = Some (protocol r)"
  by (simp_all add: rule_getattr_def)

lemma exists_group:
  "map_of vals ''group_id'' = Some g \<Longrightarrow>
   security_group_rule_exists rs vals = Inr (\<exists>r\<in>set rs. py_eq (group_id r) g)"
  by (induction rs) (simp_all add: dict_has_def dict_item_def rule_item_simps)

lemma exists_cidr:
  assumes "map_of vals ''group_id'' = None" "map_of vals ''cidr'' = Some c"
    "map_of vals ''from_port'' = Some f" "map_of vals ''to_port'' = Some t"
    "map_of vals ''protocol'' = Some p"
  shows "security_group_rule_exists rs vals =
           Inr (\<exists>r\<in>set rs. py_eq (cidr r) c \<and> py_eq (from_port r) f \<and> py_eq (to_port r) t \<and>
                             py_eq (protocol r) p)"
  using assms by (induction rs) (auto simp: dict_has_def dict_item_def rule_item_simps)

lemma rule_source_shapes:
  "rule_source valid_cidr st context a = Inr vals \<Longrightarrow>
   (\<exists>g. vals = [(''group_id'', PInt g)]) \<or> (\<exists>c. vals = [(''cidr'', c)])"
  by (auto simp: rule_source_def split: if_splits sum.splits pyval.splits)

lemma canonical_shapes:
  assumes "revoke_rule_args_to_dict valid_cidr st context a = Inr (Some vals)"
  shows "(\<exists>g. vals = [(''group_id'', PInt g)]) \<or>
         (\<exists>g p f t. vals = [(''group_id'', PInt g), (''protocol'', PStr p),
                             (''from_port'', PInt f), (''to_port'', PInt t)]) \<or>
         (\<exists>c p f t. vals = [(''cidr'', c), (''protocol'', PStr p),
                             (''from_port'', PInt f), (''to_port'', PInt t)])"
proof -
  from assms obtain v0 where v0: "rule_source valid_cidr st context a = Inr v0"
    by (auto simp: revoke_rule_args_to_dict_def split: sum.splits)
  from rule_source_shapes [OF v0] show ?thesis
  proof
    assume "\<exists>g. v0 = [(''group_id'', PInt g)]"
    then obtain g where "v0 = [(''group_id'', PInt g)]" ..
    then show ?thesis using assms v0
      by (auto simp: revoke_rule_args_to_dict_def dict_has_def Let_def split: if_splits sum.splits)
  next
    assume "\<exists>c. v0 = [(''cidr'', c)]"
    then obtain c where "v0 = [(''cidr'', c)]" ..
    then show ?thesis using assms v0
      by (auto simp: revoke_rule_args_to_dict_def dict_has_def Let_def split: if_splits sum.splits)
  qed
qed

lemma exists_canonical:
  assumes "revoke_rule_args_to_dict valid_cidr st context a = Inr (Some vals)"
  shows "security_group_rule_exists rs (dict_set vals ''parent_group_id'' x)
           = Inr (\<exists>r\<in>set rs. canonically_equal vals r)"
proof -
  let ?v = "dict_set vals ''parent_group_id'' x"
  from canonical_shapes [OF assms] consider
      (g) g where "map_of vals ''group_id'' = Some g"
    | (c) c p f t where "vals = [(''cidr'', c), (''protocol'', PStr p),
                             (''from_port'', PInt f), (''to_port'', PInt t)]"
    by auto
  then show ?thesis
  proof cases
    case g
    then have "map_of ?v ''group_id'' = Some g" by (simp add: map_of_dict_set)
    from exists_group [OF this] g show ?thesis by (simp add: canonically_equal_def)
  next
    case c
    have "security_group_rule_exists rs ?v =
           Inr (\<exists>r\<in>set rs. py_eq (cidr r) c \<and> py_eq (from_port r) (PInt f) \<and>
                  py_eq (to_port r) (PInt t) \<and> py_eq (protocol r) (PStr p))"
      by (rule exists_cidr) (simp_all add: c map_of_dict_set)
    then show ?thesis using c by (simp add: canonically_equal_def column_def)
  qed
qed

text \<open>
  Claim C5: once the target group is found and the request canonicalizes to a
  value set, \<^verbatim>\<open>authorize_security_group_ingress\<close> fails with the \<^verbatim>\<open>ApiError\<close>
  "This rule already exists" exactly when some rule of the group is canonically
  equal to the value set, and then stores nothing; otherwise it returns \<^verbatim>\<open>True\<close>
  and adds the rule. For a source group only the group id is compared, so a
  different source group with the same ports does not collide.
\<close>

theorem authorize_duplicate_detection:
  assumes "security_group_get_by_name (st\<lparr>groups := ensure_default context (groups st)\<rparr>)
             (ctx_project_id context) group_name = Inr sg"
    and "revoke_rule_args_to_dict valid_cidr (st\<lparr>groups := ensure_default context (groups st)\<rparr>)
           context kwargs = Inr (Some vals)"
  shows "authorize_security_group_ingress ensure_default valid_cidr context group_name kwargs st =
     (if \<exists>r\<in>set (security_group_rules (st\<lparr>groups := ensure_default context (groups st)\<rparr>) sg).
            canonically_equal vals r
      then (Inl ApiError_This_rule_already_exists,
            st\<lparr>groups := ensure_default context (groups st)\<rparr>)
      else (Inr True,
            trigger_security_group_rules_refresh
              (security_group_rule_create (st\<lparr>groups := ensure_default context (groups st)\<rparr>)
                 (dict_set vals ''parent_group_id'' (PInt (sg_id sg))))
              (sg_id sg)))"
  using assms exists_canonical [OF assms(2)]
  by (simp add: authorize_security_group_ingress_def Let_def)

lemma example_web:
  "security_group_get_by_name (example_state\<lparr>groups := (\<lambda>c gs. gs) example_context (groups example_state)\<rparr>)
     (ctx_project_id example_context) ''web''
   = Inr \<lparr>sg_id = 1, sg_project_id = ''proj'', sg_name = ''web'', sg_description = ''web servers''\<rparr>"
  by (simp add: security_group_get_by_name_def example_state_def example_context_def)

lemma example_canonical:
  "revoke_rule_args_to_dict (\<lambda>c. True) (example_state\<lparr>groups := (\<lambda>c gs. gs) example_context (groups example_state)\<rparr>)
     example_context
     (default_rule_args\<lparr>arg_cidr_ip := PStr ''10.0.0.0/8'', arg_ip_protocol := PStr ''tcp'',
                        arg_from_port := PStr ''80'', arg_to_port := PStr ''80''\<rparr>)
   = Inr (Some [(''cidr'', PStr ''10.0.0.0/8''), (''protocol'', PStr ''tcp''),
                (''from_port'', PInt 80), (''to_port'', PInt 80)])"
  "revoke_rule_args_to_dict (\<lambda>c. True) (example_state\<lparr>groups := (\<lambda>c gs. gs) example_context (groups example_state)\<rparr>)
     example_context
     (default_rule_args\<lparr>arg_cidr_ip := PStr ''10.0.0.0/8'', arg_ip_protocol := PStr ''tcp'',
                        arg_from_port := PStr ''81'', arg_to_port := PStr ''81''\<rparr>)
   = Inr (Some [(''cidr'', PStr ''10.0.0.0/8''), (''protocol'', PStr ''tcp''),
                (''from_port'', PInt 81), (''to_port'', PInt 81)])"
  "revoke_rule_args_to_dict (\<lambda>c. True) (example_state\<lparr>groups := (\<lambda>c gs. gs) example_context (groups example_state)\<rparr>)
     example_context
     (default_rule_args\<lparr>arg_source_security_group_name := PStr ''db'', arg_ip_protocol := PStr ''udp'',
                        arg_from_port := PInt 5353, arg_to_port := PInt 5353\<rparr>)
   = Inr (Some [(''group_id'', PInt 2), (''protocol'', PStr ''udp''),
                (''from_port'', PInt 5353), (''to_port'', PInt 5353)])"
  "revoke_rule_args_to_dict (\<lambda>c. True) (example_state\<lparr>groups := (\<lambda>c gs. gs) example_context (groups example_state)\<rparr>)
     example_context
     (default_rule_args\<lparr>arg_source_security_group_name := PStr ''cache'', arg_ip_protocol := PStr ''tcp'',
                        arg_from_port := PInt 22, arg_to_port := PInt 22\<rparr>)
   = Inr (Some [(''group_id'', PInt 3), (''protocol'', PStr ''tcp''),
                (''from_port'', PInt 22), (''to_port'', PInt 22)])"
  "revoke_rule_args_to_dict (\<lambda>c. True) (example_state\<lparr>groups := (\<lambda>c gs. gs) example_context (groups example_state)\<rparr>)
     example_context
     (default_rule_args\<lparr>arg_source_security_group_name := PStr ''db''\<rparr>)
   = Inr (Some [(''group_id'', PInt 2)])"
  by (simp_all add: revoke_rule_args_to_dict_def rule_source_def default_rule_args_def
        example_state_def example_context_def security_group_get_by_name_def
        get_source_project_id_def dict_has_def upper_def upper_char_def lower26_def upper26_def
        int_of_string_def strip_def isspace_def digit_value_def digits36_def upper36_def)

lemma example_state_groups: "example_state\<lparr>groups := groups example_state\<rparr> = example_state"
  by simp

lemma example_web_rules:
  "security_group_rules example_state
     \<lparr>sg_id = 1, sg_project_id = ''proj'', sg_name = ''web'', sg_description = ''web servers''\<rparr>
   = [\<lparr>rule_id = 1, parent_group_id = PInt 1, protocol = PStr ''tcp'', from_port = PInt 80,
       to_port = PInt 80, cidr = PStr ''10.0.0.0/8'', group_id = PNone\<rparr>,
      \<lparr>rule_id = 2, parent_group_id = PInt 1, protocol = PStr ''tcp'', from_port = PInt 22,
       to_port = PInt 22, cidr = PNone, group_id = PInt 2\<rparr>,
      \<lparr>rule_id = 4, parent_group_id = PInt 1, protocol = PStr ''udp'', from_port = PInt 53,
       to_port = PInt 53, cidr = PNone, group_id = PInt 2\<rparr>]"
  by (simp add: security_group_rules_def example_state_def)

theorem authorize_duplicate_detection_witness:
  "authorize_security_group_ingress (\<lambda>c gs. gs) (\<lambda>c. True) example_context ''web''
     (default_rule_args\<lparr>arg_cidr_ip := PStr ''10.0.0.0/8'', arg_ip_protocol := PStr ''tcp'',
                        arg_from_port := PStr ''80'', arg_to_port := PStr ''80''\<rparr>) example_state
     = (Inl ApiError_This_rule_already_exists, example_state) \<and>
   fst (authorize_security_group_ingress (\<lambda>c gs. gs) (\<lambda>c. True) example_context ''web''
     (default_rule_args\<lparr>arg_cidr_ip := PStr ''10.0.0.0/8'', arg_ip_protocol := PStr ''tcp'',
                        arg_from_port := PStr ''81'', arg_to_port := PStr ''81''\<rparr>) example_state)
     = Inr True \<and>
   authorize_security_group_ingress (\<lambda>c gs. gs) (\<lambda>c. True) example_context ''web''
     (default_rule_args\<lparr>arg_source_security_group_name := PStr ''db'', arg_ip_protocol := PStr ''udp'',
                        arg_from_port := PInt 5353, arg_to_port := PInt 5353\<rparr>) example_state
     = (Inl ApiError_This_rule_already_exists, example_state) \<and>
   fst (authorize_security_group_ingress (\<lambda>c gs. gs) (\<lambda>c. True) example_context ''web''
     (default_rule_args\<lparr>arg_source_security_group_name := PStr ''cache'', arg_ip_protocol := PStr ''tcp'',
                        arg_from_port := PInt 22, arg_to_port := PInt 22\<rparr>) example_state)
     = Inr True"
proof -
  note a = authorize_duplicate_detection [of "\<lambda>c gs. gs" example_context example_state,
      OF example_web, unfolded example_state_groups example_web_rules]
  have 1: "authorize_security_group_ingress (\<lambda>c gs. gs) (\<lambda>c. True) example_context ''web''
     (default_rule_args\<lparr>arg_cidr_ip := PStr ''10.0.0.0/8'', arg_ip_protocol := PStr ''tcp'',
                        arg_from_port := PStr ''80'', arg_to_port := PStr ''80''\<rparr>) example_state
     = (Inl ApiError_This_rule_already_exists, example_state)"
    using a [OF example_canonical(1) [unfolded example_state_groups]]
    by (simp add: canonically_equal_def column_def)
  have 2: "fst (authorize_security_group_ingress (\<lambda>c gs. gs) (\<lambda>c. True) example_context ''web''
     (default_rule_args\<lparr>arg_cidr_ip := PStr ''10.0.0.0/8'', arg_ip_protocol := PStr ''tcp'',
                        arg_from_port := PStr ''81'', arg_to_port := PStr ''81''\<rparr>) example_state)
     = Inr True"
    using a [OF example_canonical(2) [unfolded example_state_groups]]
    by (simp add: canonically_equal_def column_def)
  have 3: "authorize_security_group_ingress (\<lambda>c gs. gs) (\<lambda>c. True) example_context ''web''
     (default_rule_args\<lparr>arg_source_security_group_name := PStr ''db'', arg_ip_protocol := PStr ''udp'',
                        arg_from_port := PInt 5353, arg_to_port := PInt 5353\<rparr>) example_state
     = (Inl ApiError_This_rule_already_exists, example_state)"
    using a [OF example_canonical(3) [unfolded example_state_groups]]
    by (simp add: canonically_equal_def column_def)
  have 4: "fst (authorize_security_group_ingress (\<lambda>c gs. gs) (\<lambda>c. True) example_context ''web''
     (default_rule_args\<lparr>arg_source_security_group_name := PStr ''cache'', arg_ip_protocol := PStr ''tcp'',
                        arg_from_port := PInt 22, arg_to_port := PInt 22\<rparr>) example_state)
     = Inr True"
    using a [OF example_canonical(4) [unfolded example_state_groups]]
    by (simp add: canonically_equal_def column_def)
  from 1 2 3 4 show ?thesis by blast
qed

lemma filter_remove1:
  "distinct (map f xs) \<Longrightarrow> r \<in> set xs \<Longrightarrow> filter (\<lambda>x. f x \<noteq> f r) xs = remove1 r xs"
proof (induction xs)
  case Nil
  then show ?case by simp
next
  case (Cons x xs)
  show ?case
  proof (cases "x = r")
    case True
    then have nin: "f r \<notin> f ` set xs" using Cons.prems by simp
    have "\<forall>y\<in>set xs. f y \<noteq> f r"
    proof
      fix y assume "y \<in> set xs"
      then have "f y \<in> f ` set xs" by simp
      with nin show "f y \<noteq> f r" by auto
    qed
    then have "filter (\<lambda>x. f x \<noteq> f r) xs = xs" by (simp add: filter_id_conv)
    then show ?thesis using True by simp
  next
    case False
    then have "r \<in> set xs" using Cons.prems by simp
    moreover have "f r \<in> f ` set xs" using \<open>r \<in> set xs\<close> by simp
    then have "f x \<noteq> f r" using Cons.prems by auto
    ultimately show ?thesis using Cons False by simp
  qed
qed

lemma find_SomeD: "find P xs = Some r \<Longrightarrow> r \<in> set xs \<and> P r"
  by (induction xs) (auto split: if_splits)

lemma rule_matches_map_of:
  assumes "distinct (map fst criteria)" "\<forall>k\<in>fst ` set criteria. rule_getattr r k \<noteq> None"
  shows "rule_matches criteria r =
           (\<forall>k v. map_of criteria k = Some v \<longrightarrow> (\<exists>x. rule_getattr r k = Some x \<and> py_eq x v))"
proof -
  have "rule_matches criteria r =
          (\<forall>(k, v)\<in>set criteria. \<exists>x. rule_getattr r k = Some x \<and> py_eq x v)"
    unfolding rule_matches_def list_all_iff using assms(2) by (force split: option.splits)
  also have "\<dots> = (\<forall>k v. map_of criteria k = Some v \<longrightarrow>
                      (\<exists>x. rule_getattr r k = Some x \<and> py_eq x v))"
    using assms(1) by (auto simp: map_of_eq_Some_iff)
  finally show ?thesis .
qed

lemma rule_matches_fields:
  assumes "revoke_rule_args_to_dict valid_cidr st context a = Inr (Some criteria)"
  shows "rule_matches criteria r =
           (\<forall>k v. map_of criteria k = Some v \<longrightarrow> (\<exists>x. rule_getattr r k = Some x \<and> py_eq x v))"
proof (rule rule_matches_map_of)
  show "distinct (map fst criteria)" using canonical_shapes [OF assms] by auto
  show "\<forall>k\<in>fst ` set criteria. rule_getattr r k \<noteq> None"
    using canonical_shapes [OF assms] by (auto simp: rule_getattr_simps)
qed

text \<open>
  Claim C6: once the target group is found and the request canonicalizes to the
  criteria, a rule matches when every field the criteria hold equals the rule's
  attribute of that name, and fields the criteria lack are not looked at.
  \<^verbatim>\<open>revoke_security_group_ingress\<close> removes the first rule of the group that
  matches and nothing else (rule ids being unique); when no rule matches it
  fails with the \<^verbatim>\<open>ApiError\<close> "No rule for the specified parameters" and the
  rules stay as they were.
\<close>

theorem revoke_first_match:
  assumes "security_group_get_by_name (st\<lparr>groups := ensure_default context (groups st)\<rparr>)
             (ctx_project_id context) group_name = Inr sg"
    and "revoke_rule_args_to_dict valid_cidr (st\<lparr>groups := ensure_default context (groups st)\<rparr>)
           context kwargs = Inr (Some criteria)"
    and "distinct (map rule_id (rules st))"
  shows "revoke_security_group_ingress ensure_default valid_cidr context group_name kwargs st =
     (case find (\<lambda>r. \<forall>k v. map_of criteria k = Some v \<longrightarrow>
                        (\<exists>x. rule_getattr r k = Some x \<and> py_eq x v))
             (security_group_rules st sg) of
        None \<Rightarrow> (Inl ApiError_No_rule_for_the_specified_parameters,
                 st\<lparr>groups := ensure_default context (groups st)\<rparr>)
      | Some r \<Rightarrow> (Inr True,
                   st\<lparr>groups := ensure_default context (groups st),
                      rules := remove1 r (rules st),
                      refreshed := refreshed st @ [sg_id sg]\<rparr>))"
proof -
  let ?st1 = "st\<lparr>groups := ensure_default context (groups st)\<rparr>"
  let ?P = "\<lambda>r. \<forall>k v. map_of criteria k = Some v \<longrightarrow>
                        (\<exists>x. rule_getattr r k = Some x \<and> py_eq x v)"
  have m: "rule_matches criteria = ?P"
    using rule_matches_fields [OF assms(2)] by (intro ext) simp
  have rs: "security_group_rules ?st1 sg = security_group_rules st sg"
    by (simp add: security_group_rules_def)
  show ?thesis
  proof (cases "find ?P (security_group_rules st sg)")
    case None
    then show ?thesis using assms(1,2)
      by (simp add: revoke_security_group_ingress_def Let_def m rs)
  next
    case (Some r)
    then have "r \<in> set (rules st)"
      using find_SomeD [OF Some] by (simp add: security_group_rules_def)
    then have "filter (\<lambda>x. rule_id x \<noteq> rule_id r) (rules st) = remove1 r (rules st)"
      using assms(3) by (rule filter_remove1 [rotated])
    then show ?thesis using assms(1,2) Some
      by (simp add: revoke_security_group_ingress_def Let_def m rs
            security_group_rule_destroy_def trigger_security_group_rules_refresh_def)
  qed
qed

theorem revoke_first_match_witness:
  "revoke_security_group_ingress (\<lambda>c gs. gs) (\<lambda>c. True) example_context ''web''
     (default_rule_args\<lparr>arg_source_security_group_name := PStr ''db''\<rparr>) example_state
     = (Inr True,
        example_state\<lparr>rules := [rules example_state ! 0, rules example_state ! 2,
                                 rules example_state ! 3],
                       refreshed := [1]\<rparr>) \<and>
   revoke_security_group_ingress (\<lambda>c gs. gs) (\<lambda>c. True) example_context ''web''
     (default_rule_args\<lparr>arg_cidr_ip := PStr ''10.0.0.0/8'', arg_ip_protocol := PStr ''tcp'',
                        arg_from_port := PStr ''81'', arg_to_port := PStr ''81''\<rparr>) example_state
     = (Inl ApiError_No_rule_for_the_specified_parameters, example_state)"
proof -
  have d: "distinct (map rule_id (rules example_state))" by (simp add: example_state_def)
  note a = revoke_first_match [of "\<lambda>c gs. gs" example_context example_state,
      OF example_web _ d, unfolded example_state_groups example_web_rules]
  have 1: "revoke_security_group_ingress (\<lambda>c gs. gs) (\<lambda>c. True) example_context ''web''
     (default_rule_args\<lparr>arg_source_security_group_name := PStr ''db''\<rparr>) example_state
     = (Inr True,
        example_state\<lparr>rules := [rules example_state ! 0, rules example_state ! 2,
                                 rules example_state ! 3],
                       refreshed := [1]\<rparr>)"
    using a [OF example_canonical(5) [unfolded example_state_groups],
             unfolded rule_matches_fields [OF example_canonical(5), symmetric]]
    by (simp add: rule_matches_def rule_getattr_def) (simp add: example_state_def)
  have 2: "revoke_security_group_ingress (\<lambda>c gs. gs) (\<lambda>c. True) example_context ''web''
     (default_rule_args\<lparr>arg_cidr_ip := PStr ''10.0.0.0/8'', arg_ip_protocol := PStr ''tcp'',
                        arg_from_port := PStr ''81'', arg_to_port := PStr ''81''\<rparr>) example_state
     = (Inl ApiError_No_rule_for_the_specified_parameters, example_state)"
    using a [OF example_canonical(2) [unfolded example_state_groups],
             unfolded rule_matches_fields [OF example_canonical(2), symmetric]]
    by (simp add: rule_matches_def rule_getattr_def)
  from 1 2 show ?thesis by blast
qed

section \<open>Properties of running instances\<close>














end
